theory Spec2Isabelle
  imports Main "HOL-Library.Sublist"
begin

section \<open>Strings\<close>

text \<open>
  A Python \<open>str\<close> is a sequence of Unicode code points, so a string of the bot is a list
  of code points. \<open>py\<close> reads an ASCII literal as such a string; the newline is code
  point 10.
\<close>

type_synonym ustr = "nat list"

definition py :: "string \<Rightarrow> ustr" where
  "py s = map of_char s"

definition newline :: nat where
  "newline = 10"

section \<open>The pattern of \<open>get_math_result\<close>\<close>

text \<open>
  The pattern is \<^verbatim>\<open>([\d\.]+)$\<close>, applied with \<^verbatim>\<open>re.search\<close> to a \<open>str\<close>.

  For a \<open>str\<close> pattern, \<^verbatim>\<open>\d\<close> is every Unicode decimal digit (general category Nd), of
  which \<open>0\<close> to \<open>9\<close> are the first ten. The ranges below are the 660 code points of that
  category in Unicode 14.0, the table of CPython 3.11.
\<close>

definition nd_ranges :: "(nat \<times> nat) list" where
  "nd_ranges =
    [(48, 57), (1632, 1641), (1776, 1785), (1984, 1993), (2406, 2415), (2534, 2543),
     (2662, 2671), (2790, 2799), (2918, 2927), (3046, 3055), (3174, 3183), (3302, 3311),
     (3430, 3439), (3558, 3567), (3664, 3673), (3792, 3801), (3872, 3881), (4160, 4169),
     (4240, 4249), (6112, 6121), (6160, 6169), (6470, 6479), (6608, 6617), (6784, 6793),
     (6800, 6809), (6992, 7001), (7088, 7097), (7232, 7241), (7248, 7257), (42528, 42537),
     (43216, 43225), (43264, 43273), (43472, 43481), (43504, 43513), (43600, 43609),
     (44016, 44025), (65296, 65305), (66720, 66729), (68912, 68921), (69734, 69743),
     (69872, 69881), (69942, 69951), (70096, 70105), (70384, 70393), (70736, 70745),
     (70864, 70873), (71248, 71257), (71360, 71369), (71472, 71481), (71904, 71913),
     (72016, 72025), (72784, 72793), (73040, 73049), (73120, 73129), (92768, 92777),
     (92864, 92873), (93008, 93017), (120782, 120831), (123200, 123209), (123632, 123641),
     (125264, 125273), (130032, 130041)]"

fun in_ranges :: "nat \<Rightarrow> (nat \<times> nat) list \<Rightarrow> bool" where
  "in_ranges c [] = False"
| "in_ranges c ((lo, hi) # rs) = ((lo \<le> c \<and> c \<le> hi) \<or> in_ranges c rs)"

definition is_decimal :: "nat \<Rightarrow> bool" where
  "is_decimal c = in_ranges c nd_ranges"

text \<open>The character class \<^verbatim>\<open>[\d\.]\<close>: a decimal digit or the full stop (code point 46).\<close>

definition in_class :: "nat \<Rightarrow> bool" where
  "in_class c = (is_decimal c \<or> c = 46)"

text \<open>
  Without the MULTILINE flag, \<^verbatim>\<open>$\<close> holds at the end of the string and just before a
  newline that is the last character. The argument is the text still to the right of the
  position.
\<close>

definition at_end :: "ustr \<Rightarrow> bool" where
  "at_end r = (r = [] \<or> r = [newline])"

text \<open>
  \<open>match_here r\<close> matches the pattern at the start of \<open>r\<close>: one or more characters of the
  class, as many as possible (the repetition is greedy, and gives characters back one at
  a time), then \<^verbatim>\<open>$\<close>. The result is group 1.
\<close>

fun match_here :: "ustr \<Rightarrow> ustr option" where
  "match_here [] = None"
| "match_here (c # r) =
     (if in_class c then
        (case match_here r of
           Some m \<Rightarrow> Some (c # m)
         | None \<Rightarrow> if at_end r then Some [c] else None)
      else None)"

text \<open>\<^verbatim>\<open>re.search\<close> tries the start positions from left to right; the first match wins.\<close>

fun re_search :: "ustr \<Rightarrow> ustr option" where
  "re_search [] = match_here []"
| "re_search (c # r) =
     (case match_here (c # r) of
        Some m \<Rightarrow> Some m
      | None \<Rightarrow> re_search r)"

definition get_math_result :: "ustr \<Rightarrow> ustr" where
  "get_math_result calc_history =
     (case re_search calc_history of
        Some m \<Rightarrow> m
      | None \<Rightarrow> [])"

text \<open>
  What the search computes, said without the search: \<open>trailing_run s\<close> is the longest
  run of class characters that ends \<open>s\<close>, and \<open>strip_final_newline\<close> removes one
  newline from the end of a string that has one. Both are used to state and prove
  properties of \<open>get_math_result\<close> only.
\<close>

definition trailing_run :: "ustr \<Rightarrow> ustr" where
  "trailing_run s = rev (takeWhile in_class (rev s))"

definition strip_final_newline :: "ustr \<Rightarrow> ustr" where
  "strip_final_newline s = (if s \<noteq> [] \<and> last s = newline then butlast s else s)"

text \<open>
  The characters \<open>0\<close> to \<open>9\<close> and the full stop, and the characters that RFC 3986 lets a
  URL carry as they are (its unreserved set: ASCII letters, ASCII digits, \<open>-\<close>, \<open>.\<close>,
  \<open>_\<close> and \<open>~\<close>).
\<close>

definition ascii_digit :: "nat \<Rightarrow> bool" where
  "ascii_digit c = (48 \<le> c \<and> c \<le> 57)"

definition ascii_numeral_char :: "nat \<Rightarrow> bool" where
  "ascii_numeral_char c = (ascii_digit c \<or> c = 46)"

definition url_unreserved :: "nat \<Rightarrow> bool" where
  "url_unreserved c =
     ((65 \<le> c \<and> c \<le> 90) \<or> (97 \<le> c \<and> c \<le> 122) \<or> ascii_digit c
      \<or> c = 45 \<or> c = 46 \<or> c = 95 \<or> c = 126)"

section \<open>The launch keyboard\<close>

definition CALC_URL :: ustr where
  "CALC_URL = py ''https://accountingcalculator-37edb.web.app''"

record web_app_info =
  url :: ustr

record keyboard_button =
  button_text :: ustr
  web_app :: web_app_info

record reply_keyboard_markup =
  keyboard :: "keyboard_button list list"
  one_time_keyboard :: bool
  resize_keyboard :: bool

text \<open>
  \<open>make_calc_keyboard\<close>: one button that opens the calculator. A non-empty \<open>init_value\<close>
  (Python's truth test on a \<open>str\<close>) is added to the URL and to the caption.
\<close>

definition make_calc_keyboard :: "ustr \<Rightarrow> reply_keyboard_markup" where
  "make_calc_keyboard init_value =
     (let but_caption = py ''Call calculator'';
          calc_url = CALC_URL;
          (calc_url, but_caption) =
            (if init_value \<noteq> []
             then (calc_url @ py ''?value='' @ init_value,
                   but_caption @ py '' with last value='' @ init_value)
             else (calc_url, but_caption));
          web_info = \<lparr>url = calc_url\<rparr>;
          button = [[\<lparr>button_text = but_caption, web_app = web_info\<rparr>]]
      in \<lparr>keyboard = button, one_time_keyboard = True, resize_keyboard = True\<rparr>)"

section \<open>Updates, and what a handler does\<close>

text \<open>
  The parts of the library's \<open>Update\<close> that the handlers read. \<open>mention_markdown_v2\<close>
  is the text the library computes for a user; \<open>msg_web_app_data\<close> is the \<open>data\<close> of the
  message's \<open>web_app_data\<close>. \<open>message\<close> is optional as in the library: it is absent in an
  update that is not a new message (an edited message), while \<open>effective_message\<close> is the
  message of the update of either kind. Reading an attribute of an absent value raises
  \<open>AttributeError\<close>.
\<close>

record user =
  user_id :: int
  mention_markdown_v2 :: ustr

record message =
  msg_chat_id :: int
  msg_text :: "ustr option"
  msg_web_app_data :: "ustr option"

record update =
  effective_user :: user
  message :: "message option"
  effective_message :: message

datatype py_error = AttributeError

text \<open>
  The two calls that send: \<open>reply_text\<close> on a message (to the chat of that message,
  with a keyboard) and \<open>bot.send_message\<close> (to a chat id given as configured text).
  A handler's outcome is what it sent, what it logged, both in order, and the exception
  that ended it, if any.
\<close>

datatype outbound =
    Reply_text int ustr reply_keyboard_markup
  | Send_message ustr ustr

record outcome =
  sent :: "outbound list"
  logged :: "ustr list"
  raised :: "py_error option"

text \<open>Formatting in an f-string: \<open>str\<close> of an \<open>int\<close>, and of a text that may be \<open>None\<close>.\<close>

fun digits :: "nat \<Rightarrow> ustr" where
  "digits n = (if n < 10 then [48 + n] else digits (n div 10) @ [48 + n mod 10])"

declare digits.simps [simp del]

definition str_int :: "int \<Rightarrow> ustr" where
  "str_int i = (if i < 0 then 45 # digits (nat (- i)) else digits (nat i))"

definition str_opt :: "ustr option \<Rightarrow> ustr" where
  "str_opt t = (case t of None \<Rightarrow> py ''None'' | Some x \<Rightarrow> x)"

text \<open>\<open>str.split\<close> and \<open>str.join\<close> with a separator of one character.\<close>

fun str_split :: "nat \<Rightarrow> ustr \<Rightarrow> ustr list" where
  "str_split sep [] = [[]]"
| "str_split sep (c # cs) =
     (if c = sep then [] # str_split sep cs
      else (case str_split sep cs of
              [] \<Rightarrow> [[c]]
            | l # ls \<Rightarrow> (c # l) # ls))"

fun str_join :: "nat \<Rightarrow> ustr list \<Rightarrow> ustr" where
  "str_join sep [] = []"
| "str_join sep [x] = x"
| "str_join sep (x # y # ys) = x @ sep # str_join sep (y # ys)"

text \<open>Line 119: \<^verbatim>\<open>'\n'.join(calc_history.split('\n')[::-1])\<close>.\<close>

definition reverse_lines :: "ustr \<Rightarrow> ustr" where
  "reverse_lines calc_history = str_join newline (rev (str_split newline calc_history))"

text \<open>
  The updates that reach the handlers registered in \<open>main\<close>: a new message, where
  \<open>message\<close> is the message itself, and an edited message, where \<open>message\<close> is absent
  (\<open>CommandHandler\<close> is registered with its default filter, which takes both). A message
  is a text message or the service message that carries the data of the web app. \<open>U1\<close> is
  a user for the scenarios.
\<close>

definition message_update :: "user \<Rightarrow> message \<Rightarrow> update" where
  "message_update usr m = \<lparr>effective_user = usr, message = Some m, effective_message = m\<rparr>"

definition edited_message_update :: "user \<Rightarrow> message \<Rightarrow> update" where
  "edited_message_update usr m =
     \<lparr>effective_user = usr, message = None, effective_message = m\<rparr>"

definition text_message :: "int \<Rightarrow> ustr \<Rightarrow> message" where
  "text_message chat txt =
     \<lparr>msg_chat_id = chat, msg_text = Some txt, msg_web_app_data = None\<rparr>"

definition web_app_message :: "int \<Rightarrow> ustr \<Rightarrow> message" where
  "web_app_message chat d =
     \<lparr>msg_chat_id = chat, msg_text = None, msg_web_app_data = Some d\<rparr>"

definition U1 :: user where
  "U1 = \<lparr>user_id = 1, mention_markdown_v2 = py ''[U1](tg://user?id=1)''\<rparr>"

section \<open>The handlers\<close>

text \<open>\<open>ADMIN_CHANT_ID\<close> comes from the environment; it is a parameter here.\<close>

definition feedback_cmd :: "ustr \<Rightarrow> update \<Rightarrow> outcome" where
  "feedback_cmd ADMIN_CHANT_ID upd =
     (let usr = effective_user upd in
      case message upd of
        None \<Rightarrow> \<lparr>sent = [], logged = [], raised = Some AttributeError\<rparr>
      | Some m \<Rightarrow>
          let ack = Reply_text (msg_chat_id m)
                      (mention_markdown_v2 usr @ py '', thank you\<newline>'')
                      (make_calc_keyboard []);
              msg = py ''Feedback from '' @ mention_markdown_v2 usr
                    @ py '', chat_id:'' @ str_int (user_id usr) @ py '':\<newline>''
                    @ str_opt (msg_text (effective_message upd))
          in \<lparr>sent = [ack, Send_message ADMIN_CHANT_ID msg], logged = [], raised = None\<rparr>)"

definition calc_button_cmd :: "update \<Rightarrow> outcome" where
  "calc_button_cmd upd =
     (let usr = effective_user upd;
          entry = py ''Calc_button - '' @ mention_markdown_v2 usr;
          msg = py ''Press the button to call Web-Calculator''
      in \<lparr>sent = [Reply_text (msg_chat_id (effective_message upd)) msg (make_calc_keyboard [])],
          logged = [entry], raised = None\<rparr>)"

definition web_app_data :: "update \<Rightarrow> outcome" where
  "web_app_data upd =
     (let usr = effective_user upd;
          entry = py ''Web_app_data - '' @ mention_markdown_v2 usr;
          failed = \<lparr>sent = [], logged = [entry], raised = Some AttributeError\<rparr>
      in case message upd of
        None \<Rightarrow> failed
      | Some m \<Rightarrow>
          (case msg_web_app_data m of
             None \<Rightarrow> failed
           | Some calc_history \<Rightarrow>
               let calc_history = reverse_lines calc_history;
                   last_value = get_math_result calc_history
               in \<lparr>sent = [Reply_text (msg_chat_id (effective_message upd)) calc_history
                              (make_calc_keyboard last_value)],
                   logged = [entry], raised = None\<rparr>))"

definition connected_website :: "update \<Rightarrow> outcome" where
  "connected_website upd =
     (let usr = effective_user upd
      in \<lparr>sent = [], logged = [py ''Connected_website - '' @ mention_markdown_v2 usr],
          raised = None\<rparr>)"

section \<open>What the search returns\<close>

lemma newline_not_in_class: "\<not> in_class newline"
  by (simp add: in_class_def is_decimal_def nd_ranges_def newline_def)

lemma strip_final_newline_Cons:
  "strip_final_newline (c # r) =
     (if r = [] then (if c = newline then [] else [c]) else c # strip_final_newline r)"
  by (simp add: strip_final_newline_def)

lemma strip_final_newline_empty: "strip_final_newline r = [] \<longleftrightarrow> r = [] \<or> r = [newline]"
  by (cases r rule: rev_cases) (auto simp: strip_final_newline_def)

lemma trailing_run_Cons:
  "trailing_run (c # x) =
     (if list_all in_class x then (if in_class c then c # x else x) else trailing_run x)"
  by (auto simp: trailing_run_def takeWhile_append list_all_iff)

lemma match_here_eq:
  "match_here r =
     (if strip_final_newline r \<noteq> [] \<and> list_all in_class (strip_final_newline r)
      then Some (strip_final_newline r) else None)"
proof (induction r)
  case Nil
  show ?case by (simp add: strip_final_newline_def)
next
  case (Cons c r)
  show ?case
  proof (cases "in_class c")
    case False
    then show ?thesis by (simp add: strip_final_newline_Cons)
  next
    case True
    then have c: "c \<noteq> newline" using newline_not_in_class by auto
    show ?thesis
      using True c Cons.IH
      by (auto simp: strip_final_newline_Cons at_end_def strip_final_newline_empty
               newline_not_in_class)
  qed
qed

lemma trailing_run_all:
  assumes "list_all in_class x"
  shows "trailing_run x = x"
proof -
  from assms have run: "takeWhile in_class (rev x) = rev x"
    by (simp add: takeWhile_eq_all_conv list_all_iff)
  show ?thesis unfolding trailing_run_def run by simp
qed

lemma trailing_run_Nil [simp]: "trailing_run [] = []"
  by (simp add: trailing_run_def)

lemma strip_final_newline_Nil [simp]: "strip_final_newline [] = []"
  by (simp add: strip_final_newline_def)

lemma re_search_eq:
  "re_search s =
     (if trailing_run (strip_final_newline s) = [] then None
      else Some (trailing_run (strip_final_newline s)))"
proof (induction s)
  case Nil
  show ?case by simp
next
  case (Cons c r)
  let ?x = "strip_final_newline (c # r)"
  show ?case
  proof (cases "?x \<noteq> [] \<and> list_all in_class ?x")
    case True
    then have "match_here (c # r) = Some ?x" by (simp add: match_here_eq)
    moreover from True have "trailing_run ?x = ?x" by (simp add: trailing_run_all)
    ultimately show ?thesis using True by simp
  next
    case False
    then have none: "match_here (c # r) = None" by (simp add: match_here_eq)
    have same: "trailing_run ?x = trailing_run (strip_final_newline r)"
    proof (cases "r = []")
      case True
      with False show ?thesis
        using newline_not_in_class
        by (auto simp: strip_final_newline_Cons trailing_run_Cons split: if_splits)
    next
      case r: False
      with False have "\<not> list_all in_class (c # strip_final_newline r)"
        by (simp add: strip_final_newline_Cons)
      with r show ?thesis
        by (auto simp: strip_final_newline_Cons trailing_run_Cons trailing_run_all)
    qed
    show ?thesis using none same Cons.IH by simp
  qed
qed

lemma get_math_result_eq:
  "get_math_result s = trailing_run (strip_final_newline s)"
  by (simp add: get_math_result_def re_search_eq)

lemma trailing_run_append:
  assumes "list_all in_class t" and "pre = [] \<or> \<not> in_class (last pre)"
  shows "trailing_run (pre @ t) = t"
proof (cases pre rule: rev_cases)
  case Nil
  with assms show ?thesis by (simp add: trailing_run_all)
next
  case (snoc ys y)
  with assms have y: "\<not> in_class y" by simp
  from assms have "takeWhile in_class (rev t @ y # rev ys) = rev t"
    using y by (simp add: takeWhile_append list_all_iff takeWhile_eq_all_conv)
  with snoc show ?thesis by (simp add: trailing_run_def)
qed

lemma trailing_run_snoc:
  "trailing_run (x @ [c]) = (if in_class c then trailing_run x @ [c] else [])"
  by (simp add: trailing_run_def)

lemma strip_final_newline_snoc:
  "strip_final_newline (x @ [c]) = (if c = newline then x else x @ [c])"
  by (simp add: strip_final_newline_def)

lemma trailing_run_class: "list_all in_class (trailing_run x)"
  by (simp add: trailing_run_def list_all_iff) (meson set_takeWhileD)

section \<open>Splitting and joining lines\<close>

lemma str_split_not_Nil: "str_split sep s \<noteq> []"
  by (induction s) (auto split: list.splits)

lemma str_split_no_sep: "l \<in> set (str_split sep s) \<Longrightarrow> sep \<notin> set l"
  by (induction s arbitrary: l) (auto split: if_splits list.splits)

lemma str_join_Cons: "ys \<noteq> [] \<Longrightarrow> str_join sep (x # ys) = x @ sep # str_join sep ys"
  by (cases ys) simp_all

lemma str_join_split: "str_join sep (str_split sep s) = s"
proof (induction s)
  case Nil
  show ?case by simp
next
  case (Cons c cs)
  show ?case
  proof (cases "c = sep")
    case True
    with Cons show ?thesis by (simp add: str_join_Cons str_split_not_Nil)
  next
    case False
    obtain l ls where split: "str_split sep cs = l # ls"
      using str_split_not_Nil [of sep cs] by (cases "str_split sep cs") auto
    with Cons False show ?thesis by (cases ls) simp_all
  qed
qed

lemma str_split_line: "sep \<notin> set x \<Longrightarrow> str_split sep x = [x]"
  by (induction x) auto

lemma str_split_append: "sep \<notin> set x \<Longrightarrow> str_split sep (x @ sep # r) = x # str_split sep r"
  by (induction x) auto

lemma str_split_join:
  "xs \<noteq> [] \<Longrightarrow> \<forall>l \<in> set xs. sep \<notin> set l \<Longrightarrow> str_split sep (str_join sep xs) = xs"
proof (induction sep xs rule: str_join.induct)
  case (1 sep)
  then show ?case by simp
next
  case (2 sep x)
  then show ?case by (simp add: str_split_line)
next
  case (3 sep x y ys)
  then show ?case by (simp add: str_split_append)
qed

section \<open>Evaluating on ASCII text\<close>

lemma in_class_ascii: "c < 128 \<Longrightarrow> in_class c \<longleftrightarrow> ascii_numeral_char c"
  by (auto simp: in_class_def is_decimal_def nd_ranges_def ascii_numeral_char_def ascii_digit_def)

lemma is_decimal_ascii: "c < 128 \<Longrightarrow> is_decimal c \<longleftrightarrow> ascii_digit c"
  by (auto simp: is_decimal_def nd_ranges_def ascii_digit_def)

lemmas eval_ascii =
  py_def get_math_result_def in_class_ascii is_decimal_ascii ascii_numeral_char_def ascii_digit_def
  at_end_def newline_def

section \<open>Facts about the trailing run\<close>

lemma last_not_newline:
  assumes "t \<noteq> []" and "list_all in_class t"
  shows "last t \<noteq> newline"
proof
  assume "last t = newline"
  moreover from assms have "in_class (last t)" by (simp add: list_all_iff)
  ultimately show False using newline_not_in_class by simp
qed

lemma strip_final_newline_token:
  "t \<noteq> [] \<Longrightarrow> list_all in_class t \<Longrightarrow> strip_final_newline (pre @ t) = pre @ t"
  using last_not_newline [of t] by (simp add: strip_final_newline_def)

lemma trailing_run_empty: "trailing_run x = [] \<longleftrightarrow> x = [] \<or> \<not> in_class (last x)"
  by (cases x rule: rev_cases) (simp_all add: trailing_run_snoc)

lemma set_trailing_run: "set (trailing_run x) \<subseteq> set x"
  by (auto simp: trailing_run_def dest: set_takeWhileD)

lemma set_strip_final_newline: "set (strip_final_newline s) \<subseteq> set s"
  by (auto simp: strip_final_newline_def dest: in_set_butlastD)

lemma set_get_math_result: "set (get_math_result s) \<subseteq> set s"
  using set_trailing_run [of "strip_final_newline s"] set_strip_final_newline [of s]
  by (auto simp: get_math_result_eq)

lemma get_math_result_in_class: "list_all in_class (get_math_result s)"
  by (simp add: get_math_result_eq trailing_run_class)

lemma ascii_numeral_unreserved: "ascii_numeral_char c \<Longrightarrow> url_unreserved c"
  by (auto simp: ascii_numeral_char_def url_unreserved_def)

lemma trailing_run_replicate_newline:
  "0 < n \<Longrightarrow> trailing_run (x @ replicate n newline) = []"
  by (cases n) (simp_all add: trailing_run_def newline_not_in_class replicate_append_same [symmetric]
       del: replicate_Suc)

section \<open>The scenario of the web-app payload\<close>

lemma reverse_lines_scenario:
  "reverse_lines (py ''1+1=2\<newline>2+2=4'') = py ''2+2=4\<newline>1+1=2''"
  by (simp add: reverse_lines_def py_def newline_def)

lemma extract_scenario: "get_math_result (py ''2+2=4\<newline>1+1=2'') = py ''2''"
  by (simp add: eval_ascii)

section \<open>Properties of the bot\<close>

text \<open>
  C1. The scenario of the payload \<^verbatim>\<open>1+1=2\n2+2=4\<close>: the handler reverses it to
  \<^verbatim>\<open>2+2=4\n1+1=2\<close>; \<open>get_math_result\<close> on the reversed text returns \<^verbatim>\<open>2\<close>, the number
  that ends the reversed text; the one reply has the reversed text as its body, and the
  URL of its button is the calculator's URL followed by \<^verbatim>\<open>?value=2\<close>, so it contains
  \<^verbatim>\<open>value=2\<close>. The value is not \<^verbatim>\<open>4\<close>: the pattern is anchored at the end of the whole
  text, and after the reversal the line \<^verbatim>\<open>2+2=4\<close> is the first one.
\<close>

theorem web_app_data_scenario:
  "reverse_lines (py ''1+1=2\<newline>2+2=4'') = py ''2+2=4\<newline>1+1=2''
   \<and> get_math_result (py ''2+2=4\<newline>1+1=2'') = py ''2''
   \<and> sent (web_app_data (message_update usr (web_app_message chat (py ''1+1=2\<newline>2+2=4''))))
       = [Reply_text chat (py ''2+2=4\<newline>1+1=2'') (make_calc_keyboard (py ''2''))]
   \<and> (\<exists>b. keyboard (make_calc_keyboard (py ''2'')) = [[b]]
         \<and> url (web_app b) = CALC_URL @ py ''?value=2''
         \<and> sublist (py ''value=2'') (url (web_app b)))"
proof -
  have "sublist (py ''value=2'') ((CALC_URL @ py ''?'') @ py ''value=2'')"
    by (rule sublist_append_leftI)
  then have link: "sublist (py ''value=2'') (CALC_URL @ py ''?value=2'')"
    by (simp add: py_def)
  have kb: "make_calc_keyboard (py ''2'') =
      \<lparr>keyboard = [[\<lparr>button_text = py ''Call calculator with last value=2'',
                      web_app = \<lparr>url = CALC_URL @ py ''?value=2''\<rparr>\<rparr>]],
       one_time_keyboard = True, resize_keyboard = True\<rparr>"
    by (simp add: make_calc_keyboard_def py_def)
  show ?thesis
    using link
    by (simp add: reverse_lines_scenario extract_scenario kb web_app_data_def
          message_update_def web_app_message_def)
qed

theorem web_app_data_scenario_counterexample:
  "\<not> (reverse_lines (py ''1+1=2\<newline>2+2=4'') = py ''2+2=4\<newline>1+1=2''
      \<and> get_math_result (py ''2+2=4\<newline>1+1=2'') = py ''4'')"
  by (simp add: eval_ascii)

text \<open>
  C2. For every history string that ends in a numeral token, that is a non-empty run of
  digits and decimal points that ends the string and is not preceded by another such
  character, \<open>get_math_result\<close> returns exactly that token, a decimal point at its end
  included. A digit is what the pattern's \<^verbatim>\<open>\d\<close> matches.
\<close>

theorem get_math_result_final_token:
  assumes "t \<noteq> []" and "list_all in_class t" and "pre = [] \<or> \<not> in_class (last pre)"
  shows "get_math_result (pre @ t) = t"
  using assms
  by (simp add: get_math_result_eq strip_final_newline_token trailing_run_append)

theorem get_math_result_final_token_witness:
  "py ''12.'' \<noteq> [] \<and> list_all in_class (py ''12.'') \<and> \<not> in_class (last (py ''3*4=''))
   \<and> get_math_result (py ''3*4=12.'') = py ''12.''"
  using get_math_result_final_token [of "py ''12.''" "py ''3*4=''"]
  by (simp add: eval_ascii)

text \<open>
  C3. For every non-empty resume value, \<open>make_calc_keyboard\<close> builds one button whose URL
  is the base URL followed by \<^verbatim>\<open>?value=\<close> and the value, and whose caption is the fixed
  caption followed by \<^verbatim>\<open> with last value=\<close> and the value, so it contains the value; for
  the empty value the URL is the base URL and the caption is the fixed caption.
\<close>

theorem make_calc_keyboard_link:
  "(init_value \<noteq> [] \<longrightarrow>
      (\<exists>b. keyboard (make_calc_keyboard init_value) = [[b]]
         \<and> url (web_app b) = CALC_URL @ py ''?value='' @ init_value
         \<and> button_text b = py ''Call calculator'' @ py '' with last value='' @ init_value
         \<and> sublist init_value (button_text b)))
   \<and> (init_value = [] \<longrightarrow>
      (\<exists>b. keyboard (make_calc_keyboard init_value) = [[b]]
         \<and> url (web_app b) = CALC_URL
         \<and> button_text b = py ''Call calculator''))"
proof -
  have "sublist init_value ((py ''Call calculator'' @ py '' with last value='') @ init_value)"
    by (rule sublist_append_leftI)
  then show ?thesis
    by (simp add: make_calc_keyboard_def Let_def)
qed

theorem make_calc_keyboard_link_witness:
  "py ''4'' \<noteq> []
   \<and> (\<exists>b. keyboard (make_calc_keyboard (py ''4'')) = [[b]]
         \<and> url (web_app b) = CALC_URL @ py ''?value=4''
         \<and> button_text b = py ''Call calculator with last value=4''
         \<and> sublist (py ''4'') (button_text b))
   \<and> (\<exists>b. keyboard (make_calc_keyboard []) = [[b]]
         \<and> url (web_app b) = CALC_URL
         \<and> button_text b = py ''Call calculator'')"
  using make_calc_keyboard_link [of "py ''4''"] make_calc_keyboard_link [of "[]"]
  by (simp add: py_def)

text \<open>
  C4. For every update that carries a web-app payload, the handler sends exactly one
  reply, to the chat of the message. Its body is the raw text of the payload with its
  newline-separated lines in reverse order. Its keyboard is the launch keyboard seeded
  with the value that \<open>get_math_result\<close> extracts from that reversed text, which is the
  run of class characters that ends the reversed text (one final newline set aside): one
  button, whose URL is the base URL followed by \<^verbatim>\<open>?value=\<close> and the value, and whose
  caption ends in the value; when the value is empty, the URL is the base URL and the
  caption the fixed one. The handler logs one entry and raises nothing.
\<close>

theorem web_app_data_reply:
  assumes "message upd = Some m" and "msg_web_app_data m = Some raw"
  shows "(let body = str_join newline (rev (str_split newline raw));
              last_value = get_math_result body
          in web_app_data upd =
               \<lparr>sent = [Reply_text (msg_chat_id (effective_message upd)) body
                  \<lparr>keyboard =
                     [[\<lparr>button_text =
                          (if last_value = [] then py ''Call calculator''
                           else py ''Call calculator'' @ py '' with last value='' @ last_value),
                        web_app =
                          \<lparr>url = (if last_value = [] then CALC_URL
                                  else CALC_URL @ py ''?value='' @ last_value)\<rparr>\<rparr>]],
                   one_time_keyboard = True, resize_keyboard = True\<rparr>],
                logged = [py ''Web_app_data - '' @ mention_markdown_v2 (effective_user upd)],
                raised = None\<rparr>
             \<and> last_value = trailing_run (strip_final_newline body))"
  using assms
  by (simp add: web_app_data_def reverse_lines_def make_calc_keyboard_def Let_def
        get_math_result_eq)

theorem web_app_data_reply_witness:
  "message (message_update U1 (web_app_message 1 (py ''a=1\<newline>b=2\<newline>''))) =
     Some (web_app_message 1 (py ''a=1\<newline>b=2\<newline>''))
   \<and> msg_web_app_data (web_app_message 1 (py ''a=1\<newline>b=2\<newline>'')) =
     Some (py ''a=1\<newline>b=2\<newline>'')
   \<and> web_app_data (message_update U1 (web_app_message 1 (py ''a=1\<newline>b=2\<newline>''))) =
     \<lparr>sent = [Reply_text 1 (py ''\<newline>b=2\<newline>a=1'')
        \<lparr>keyboard =
           [[\<lparr>button_text = py ''Call calculator with last value=1'',
              web_app = \<lparr>url = py ''https://accountingcalculator-37edb.web.app?value=1''\<rparr>\<rparr>]],
         one_time_keyboard = True, resize_keyboard = True\<rparr>],
      logged = [py ''Web_app_data - [U1](tg://user?id=1)''],
      raised = None\<rparr>
   \<and> trailing_run (strip_final_newline (py ''\<newline>b=2\<newline>a=1'')) = py ''1''"
proof -
  let ?raw = "py ''a=1\<newline>b=2\<newline>''"
  have body: "str_join newline (rev (str_split newline ?raw)) = py ''\<newline>b=2\<newline>a=1''"
    by (simp add: py_def newline_def)
  have val: "get_math_result (py ''\<newline>b=2\<newline>a=1'') = py ''1''"
    by (simp add: eval_ascii)
  have msg: "message (message_update U1 (web_app_message 1 ?raw)) = Some (web_app_message 1 ?raw)"
    by (simp add: message_update_def)
  have dat: "msg_web_app_data (web_app_message 1 ?raw) = Some ?raw"
    by (simp add: web_app_message_def)
  have chat: "msg_chat_id (effective_message (message_update U1 (web_app_message 1 ?raw))) = 1"
    by (simp add: message_update_def web_app_message_def)
  have usr: "mention_markdown_v2 (effective_user (message_update U1 (web_app_message 1 ?raw)))
      = py ''[U1](tg://user?id=1)''"
    by (simp add: message_update_def U1_def)
  have one: "py ''1'' \<noteq> []" by (simp add: py_def)
  from web_app_data_reply [OF msg dat] msg dat show ?thesis
    unfolding Let_def body val chat usr
    using one by (simp add: CALC_URL_def py_def)
qed

text \<open>
  C5. For every history string that has no run of digits and decimal points at its end,
  and none just before one final newline either, the search finds no match and
  \<open>get_math_result\<close> returns the empty string: an ordinary result of a total function.
  A string that ends in a numeral and one newline is not in this case: there the
  numeral is returned.
\<close>

theorem get_math_result_no_numeral:
  assumes "s = [] \<or> \<not> in_class (last s)"
    and "\<forall>x. s = x @ [newline] \<longrightarrow> x = [] \<or> \<not> in_class (last x)"
  shows "re_search s = None \<and> get_math_result s = []"
proof -
  have "strip_final_newline s = [] \<or> \<not> in_class (last (strip_final_newline s))"
  proof (cases s rule: rev_cases)
    case Nil
    then show ?thesis by simp
  next
    case (snoc x c)
    with assms show ?thesis by (auto simp: strip_final_newline_snoc)
  qed
  then have "trailing_run (strip_final_newline s) = []"
    by (simp add: trailing_run_empty)
  then show ?thesis by (simp add: get_math_result_eq re_search_eq)
qed

theorem get_math_result_no_numeral_witness:
  "\<not> in_class (last (py ''2+2=\<newline>'')) \<and> \<not> in_class (last (py ''2+2=''))
   \<and> re_search (py ''2+2=\<newline>'') = None \<and> get_math_result (py ''2+2=\<newline>'') = []"
proof -
  have whole: "py ''2+2=\<newline>'' = [] \<or> \<not> in_class (last (py ''2+2=\<newline>''))"
    by (simp add: eval_ascii)
  have line: "\<not> in_class (last (py ''2+2=''))"
    by (simp add: eval_ascii)
  have stripped: "\<forall>x. py ''2+2=\<newline>'' = x @ [newline] \<longrightarrow> x = [] \<or> \<not> in_class (last x)"
  proof (intro allI impI)
    fix x assume "py ''2+2=\<newline>'' = x @ [newline]"
    then have "py ''2+2='' @ [newline] = x @ [newline]" by (simp add: py_def newline_def)
    then have "x = py ''2+2=''" by simp
    with line show "x = [] \<or> \<not> in_class (last x)" by simp
  qed
  from get_math_result_no_numeral [OF whole stripped] whole line show ?thesis
    by (simp add: py_def)
qed

theorem get_math_result_final_newline_counterexample:
  "\<not> in_class (last (py ''5\<newline>'')) \<and> get_math_result (py ''5\<newline>'') = py ''5''"
  by (simp add: eval_ascii)

text \<open>
  C6. A feedback command that arrives as an edited message: \<open>update.message\<close> is absent,
  line 96 raises \<open>AttributeError\<close> before anything is sent, and neither the
  acknowledgment nor the message to the administrator goes out. For a feedback command
  that arrives as a new message the handler sends exactly those two, as
  \<open>feedback_cmd_message\<close> below shows, and \<open>calc_button_cmd\<close>, which replies through
  \<open>update.effective_message\<close>, answers an edited message too.
\<close>

theorem feedback_cmd_edited_message:
  "feedback_cmd admin (edited_message_update usr (text_message chat (py ''/feedback Hello admin'')))
     = \<lparr>sent = [], logged = [], raised = Some AttributeError\<rparr>"
  by (simp add: feedback_cmd_def edited_message_update_def)

lemma calc_button_cmd_edited_message:
  "sent (calc_button_cmd (edited_message_update usr (text_message chat txt)))
     = [Reply_text chat (py ''Press the button to call Web-Calculator'') (make_calc_keyboard [])]"
  by (simp add: calc_button_cmd_def edited_message_update_def text_message_def)

lemma feedback_cmd_message:
  "\<exists>forwarded.
     feedback_cmd admin (message_update usr (text_message chat (cmd @ feedback))) =
       \<lparr>sent = [Reply_text chat (mention_markdown_v2 usr @ py '', thank you\<newline>'')
                  (make_calc_keyboard []),
                Send_message admin forwarded],
        logged = [], raised = None\<rparr>
     \<and> sublist (mention_markdown_v2 usr) forwarded
     \<and> sublist (str_int (user_id usr)) forwarded
     \<and> sublist feedback forwarded"
proof -
  let ?a = "py ''Feedback from ''" and ?b = "py '', chat_id:''" and ?c = "py '':\<newline>''"
  let ?fw = "?a @ mention_markdown_v2 usr @ ?b @ str_int (user_id usr) @ ?c @ cmd @ feedback"
  have "sublist (mention_markdown_v2 usr) ?fw"
    by (rule sublist_appendI)
  moreover have "sublist (str_int (user_id usr))
      ((?a @ mention_markdown_v2 usr @ ?b) @ str_int (user_id usr) @ (?c @ cmd @ feedback))"
    by (rule sublist_appendI)
  moreover have "sublist feedback
      ((?a @ mention_markdown_v2 usr @ ?b @ str_int (user_id usr) @ ?c @ cmd) @ feedback)"
    by (rule sublist_append_leftI)
  ultimately show ?thesis
    by (simp add: feedback_cmd_def message_update_def text_message_def str_opt_def)
qed

text \<open>
  C7. For every web-app-session-opened event the handler sends nothing and writes
  exactly one log entry; the outcome has no other part, and no exception is raised.
\<close>

theorem connected_website_only_logs:
  "connected_website upd =
     \<lparr>sent = [],
      logged = [py ''Connected_website - '' @ mention_markdown_v2 (effective_user upd)],
      raised = None\<rparr>
   \<and> length (sent (connected_website upd)) = 0
   \<and> length (logged (connected_website upd)) = 1"
  by (simp add: connected_website_def)

text \<open>
  C8. For every input string, the value that \<open>get_math_result\<close> returns consists of
  characters of the pattern's class only: Unicode decimal digits and decimal points.
  When every decimal digit of the input is one of \<open>0\<close> to \<open>9\<close>, the value is a run over
  these ten digits and the decimal point, and each of its characters is one that a URL
  carries unescaped. A decimal digit of another script, such as U+0663, is returned as it
  is, and is neither.
\<close>

theorem get_math_result_charset:
  "list_all in_class (get_math_result s)
   \<and> (list_all (\<lambda>c. is_decimal c \<longrightarrow> ascii_digit c) s
        \<longrightarrow> list_all ascii_numeral_char (get_math_result s)
            \<and> list_all url_unreserved (get_math_result s))"
proof (intro conjI impI)
  show "list_all in_class (get_math_result s)" by (rule get_math_result_in_class)
next
  assume ascii: "list_all (\<lambda>c. is_decimal c \<longrightarrow> ascii_digit c) s"
  show num: "list_all ascii_numeral_char (get_math_result s)"
    unfolding list_all_iff
  proof
    fix c assume c: "c \<in> set (get_math_result s)"
    then have "in_class c" using get_math_result_in_class [of s] by (simp add: list_all_iff)
    moreover from c have "c \<in> set s" using set_get_math_result by blast
    ultimately show "ascii_numeral_char c"
      using ascii by (auto simp: list_all_iff in_class_def ascii_numeral_char_def)
  qed
  then show "list_all url_unreserved (get_math_result s)"
    by (auto simp: list_all_iff ascii_numeral_unreserved)
qed

theorem get_math_result_charset_witness:
  "list_all (\<lambda>c. is_decimal c \<longrightarrow> ascii_digit c) (py ''2+2=4.5'')
   \<and> get_math_result (py ''2+2=4.5'') = py ''4.5''
   \<and> list_all in_class (get_math_result (py ''2+2=4.5''))
   \<and> list_all ascii_numeral_char (get_math_result (py ''2+2=4.5''))
   \<and> list_all url_unreserved (get_math_result (py ''2+2=4.5''))"
  using get_math_result_charset [of "py ''2+2=4.5''"]
  by (simp add: eval_ascii)

theorem get_math_result_unicode_digit_counterexample:
  "get_math_result [1635] = [1635] \<and> \<not> ascii_numeral_char 1635 \<and> \<not> url_unreserved 1635"
  by (simp add: py_def get_math_result_def in_class_def is_decimal_def nd_ranges_def at_end_def newline_def ascii_numeral_char_def ascii_digit_def url_unreserved_def)

text \<open>
  C9. For every string that ends in a numeral token \<open>t\<close>, \<open>get_math_result\<close> returns
  \<open>t\<close> for the string itself and for the string followed by exactly one newline; followed
  by one other character outside the class (a space, say), or by two or more newlines,
  it returns the empty string.
\<close>

theorem get_math_result_end_anchor:
  assumes "t \<noteq> []" and "list_all in_class t" and "pre = [] \<or> \<not> in_class (last pre)"
  shows "get_math_result (pre @ t) = t
    \<and> get_math_result (pre @ t @ [newline]) = t
    \<and> (\<forall>c. \<not> in_class c \<and> c \<noteq> newline \<longrightarrow> get_math_result (pre @ t @ [c]) = [])
    \<and> (\<forall>n. 2 \<le> n \<longrightarrow> get_math_result (pre @ t @ replicate n newline) = [])"
proof (intro conjI allI impI)
  have run: "trailing_run (pre @ t) = t"
    using assms by (simp add: trailing_run_append)
  show "get_math_result (pre @ t) = t"
    using assms run by (simp add: get_math_result_eq strip_final_newline_token)
  have "strip_final_newline ((pre @ t) @ [newline]) = pre @ t"
    using strip_final_newline_snoc [of "pre @ t" newline] by simp
  then show "get_math_result (pre @ t @ [newline]) = t"
    using run by (simp add: get_math_result_eq)
next
  fix c assume c: "\<not> in_class c \<and> c \<noteq> newline"
  then have "strip_final_newline ((pre @ t) @ [c]) = (pre @ t) @ [c]"
    using strip_final_newline_snoc [of "pre @ t" c] by simp
  moreover have "trailing_run ((pre @ t) @ [c]) = []"
    using c trailing_run_snoc [of "pre @ t" c] by simp
  ultimately show "get_math_result (pre @ t @ [c]) = []"
    by (simp add: get_math_result_eq)
next
  fix n :: nat assume "2 \<le> n"
  then obtain k where n: "n = Suc k" and k: "0 < k" by (cases n) auto
  have "pre @ t @ replicate n newline = (pre @ t @ replicate k newline) @ [newline]"
    by (simp add: n replicate_append_same)
  then have "strip_final_newline (pre @ t @ replicate n newline) = pre @ t @ replicate k newline"
    using strip_final_newline_snoc [of "pre @ t @ replicate k newline" newline] by simp
  moreover have "trailing_run ((pre @ t) @ replicate k newline) = []"
    using k by (rule trailing_run_replicate_newline)
  ultimately show "get_math_result (pre @ t @ replicate n newline) = []"
    by (simp add: get_math_result_eq)
qed

theorem get_math_result_end_anchor_witness:
  "py ''4.5'' \<noteq> [] \<and> list_all in_class (py ''4.5'') \<and> \<not> in_class (last (py ''2+2.5=''))
   \<and> get_math_result (py ''2+2.5=4.5'') = py ''4.5''
   \<and> get_math_result (py ''2+2.5=4.5\<newline>'') = py ''4.5''
   \<and> get_math_result (py ''2+2.5=4.5 '') = []
   \<and> get_math_result (py ''2+2.5=4.5\<newline>\<newline>'') = []"
  using get_math_result_end_anchor [of "py ''4.5''" "py ''2+2.5=''"]
  by (simp add: eval_ascii)

text \<open>
  C10. The line reversal of the web-app-data handler, which splits the text at the
  newlines, reverses the list of lines and joins it with newlines again, is an
  involution: applied twice, it gives back the string it started from, for every string.
\<close>

theorem reverse_lines_involution: "reverse_lines (reverse_lines s) = s"
proof -
  let ?ls = "str_split newline s"
  have "rev ?ls \<noteq> []" by (simp add: str_split_not_Nil)
  moreover have "\<forall>l \<in> set (rev ?ls). newline \<notin> set l"
    using str_split_no_sep by auto
  ultimately have "str_split newline (str_join newline (rev ?ls)) = rev ?ls"
    by (rule str_split_join)
  then show ?thesis by (simp add: reverse_lines_def str_join_split)
qed

end
